theory Spec2Isabelle
  imports Complex_Main
begin

section \<open>The threat map of the OSINT dashboard (src/src/App.js)\<close>

text \<open>
  The dashboard is one React component, \<open>OSINTDashboard\<close>. Its world map is built by one
  effect (App.js, lines 252-560) on top of the d3 library; the risk dataset is the React
  state \<open>countryData\<close> (lines 78-129), changed only by \<open>handleRefresh\<close> (lines 150-166).

  JavaScript numbers are modelled as reals (counts as integers): the properties below are
  about comparisons, clamping and constants, not about rounding. A JavaScript object with
  string keys is an association list in insertion order, the order \<open>Object.keys\<close> and
  \<open>Object.entries\<close> enumerate it in; a property read \<open>obj[key]\<close> finds the object's own
  keys and, behind them, the members that every object inherits from \<open>Object.prototype\<close>.
  A number that may be \<open>NaN\<close> has the type \<open>number\<close>.
\<close>

subsection \<open>Risk records and the risk dataset\<close>

record RiskRecord =
  threats :: int
  incidents :: int
  riskLevel :: string
  lastUpdate :: string
  trend :: string
  activeThreats :: "string list"
  topTargets :: "string list"
  mitigationStatus :: string

type_synonym RiskDataset = "(string \<times> RiskRecord) list"

text \<open>The initial value of the state \<open>countryData\<close> (lines 78-129).\<close>

definition initialCountryData :: RiskDataset where
  "initialCountryData =
    [(''United States'',
        \<lparr>threats = 45, incidents = 12, riskLevel = ''high'', lastUpdate = ''2 hours ago'',
         trend = ''increasing'', activeThreats = [''DDoS'', ''Ransomware'', ''APT''],
         topTargets = [''Finance'', ''Healthcare'', ''Government''],
         mitigationStatus = ''In Progress''\<rparr>),
     (''China'',
        \<lparr>threats = 38, incidents = 8, riskLevel = ''high'', lastUpdate = ''4 hours ago'',
         trend = ''stable'', activeThreats = [''Espionage'', ''Data Theft''],
         topTargets = [''Technology'', ''Defense''],
         mitigationStatus = ''Monitoring''\<rparr>),
     (''Russia'',
        \<lparr>threats = 42, incidents = 15, riskLevel = ''high'', lastUpdate = ''1 hour ago'',
         trend = ''increasing'', activeThreats = [''Ransomware'', ''Supply Chain''],
         topTargets = [''Infrastructure'', ''Energy''],
         mitigationStatus = ''Critical''\<rparr>),
     (''Germany'',
        \<lparr>threats = 12, incidents = 3, riskLevel = ''medium'', lastUpdate = ''6 hours ago'',
         trend = ''decreasing'', activeThreats = [''Phishing''],
         topTargets = [''Manufacturing''],
         mitigationStatus = ''Contained''\<rparr>),
     (''Brazil'',
        \<lparr>threats = 18, incidents = 5, riskLevel = ''medium'', lastUpdate = ''3 hours ago'',
         trend = ''stable'', activeThreats = [''Banking Trojans''],
         topTargets = [''Finance'', ''Retail''],
         mitigationStatus = ''Monitoring''\<rparr>)]"

subsection \<open>Refreshing the dataset (\<open>handleRefresh\<close>, lines 150-166)\<close>

text \<open>
  The timeout callback of \<open>handleRefresh\<close> walks \<open>Object.keys\<close> of the dataset and, for
  each country, draws \<open>Math.random()\<close> twice:
  \<^verbatim>\<open>const change = Math.random() > 0.5 ? 1 : -1;\<close>
  \<^verbatim>\<open>updatedCountryData[country].threats += change * Math.floor(Math.random() * 5);\<close>
  \<^verbatim>\<open>updatedCountryData[country].lastUpdate = 'Just now';\<close>
  and stores the result with \<open>setCountryData(updatedCountryData)\<close>. The random source is
  an explicit argument: \<open>rnd i\<close> is the \<open>i\<close>-th value that \<open>Math.random()\<close> returns, a
  number in \<open>[0, 1)\<close>.
\<close>

definition refreshCountry :: "real \<Rightarrow> real \<Rightarrow> RiskRecord \<Rightarrow> RiskRecord" where
  "refreshCountry r1 r2 d =
     (let change = (if r1 > 0.5 then 1 else - 1 :: int)
      in d\<lparr>threats := threats d + change * \<lfloor>r2 * 5\<rfloor>, lastUpdate := ''Just now''\<rparr>)"

fun refreshFrom :: "(nat \<Rightarrow> real) \<Rightarrow> nat \<Rightarrow> RiskDataset \<Rightarrow> RiskDataset" where
  "refreshFrom rnd i [] = []"
| "refreshFrom rnd i ((country, d) # rest) =
     (country, refreshCountry (rnd i) (rnd (Suc i)) d) # refreshFrom rnd (i + 2) rest"

definition updatedCountryData :: "(nat \<Rightarrow> real) \<Rightarrow> RiskDataset \<Rightarrow> RiskDataset" where
  "updatedCountryData rnd countryData = refreshFrom rnd 0 countryData"

subsection \<open>World geometry\<close>

text \<open>
  A feature of \<open>topojson.feature(world, world.objects.countries).features\<close>: the code reads
  \<open>properties.name\<close> and hands the feature to the path generator; the boundary itself
  is an opaque shape identifier here.
\<close>

record Feature =
  properties_name :: string
  shape :: nat

subsection \<open>Reading a country from the dataset\<close>

text \<open>
  The fill, the tooltip and the click listener all read \<open>countryData[countryName]\<close>.
  The dataset is an object literal, so the read finds an own key or else a member of
  \<open>Object.prototype\<close> (a function, or for \<open>__proto__\<close> the prototype object itself);
  only a name that is neither gives \<open>undefined\<close>, here \<open>None\<close>.
\<close>

definition objectPrototype :: "string list" where
  "objectPrototype =
     [''constructor'', ''__defineGetter__'', ''__defineSetter__'', ''hasOwnProperty'',
      ''__lookupGetter__'', ''__lookupSetter__'', ''isPrototypeOf'', ''propertyIsEnumerable'',
      ''toString'', ''valueOf'', ''__proto__'', ''toLocaleString'']"

datatype Found = Own RiskRecord | Inherited string

definition lookup :: "RiskDataset \<Rightarrow> string \<Rightarrow> Found option" where
  "lookup countryData key =
     (case map_of countryData key of
        Some r \<Rightarrow> Some (Own r)
      | None \<Rightarrow> if key \<in> set objectPrototype then Some (Inherited key) else None)"

text \<open>\<open>data.riskLevel\<close>: a member of the prototype has no such property.\<close>

definition riskLevelOf :: "Found \<Rightarrow> string option" where
  "riskLevelOf found = (case found of Own r \<Rightarrow> Some (riskLevel r) | Inherited _ \<Rightarrow> None)"

subsection \<open>Fill of a country path (lines 463-472)\<close>

text \<open>Every value that the read finds is truthy, so \<open>if (data)\<close> tests that it found one.\<close>

definition fill :: "bool \<Rightarrow> RiskDataset \<Rightarrow> Feature \<Rightarrow> string" where
  "fill darkMode countryData d =
     (let countryName = properties_name d
      in case lookup countryData countryName of
           Some found \<Rightarrow>
             if riskLevelOf found = Some ''high'' then ''#ef4444''
             else if riskLevelOf found = Some ''medium'' then ''#f59e0b''
             else ''#10b981''
         | None \<Rightarrow> if darkMode then ''#374151'' else ''#e5e7eb'')"

subsection \<open>Click on a country path (lines 507-522)\<close>

record Selection =
  name :: string
  data :: Found

definition noData :: RiskRecord where
  "noData = \<lparr>threats = 0, incidents = 0, riskLevel = ''low'', lastUpdate = ''No data'',
             trend = ''stable'', activeThreats = [], topTargets = [],
             mitigationStatus = ''N/A''\<rparr>"

text \<open>
  The argument that the click handler passes to \<open>setSelectedCountry\<close>:
  \<^verbatim>\<open>data: countryData[countryName] || { threats: 0, ... }\<close>.
\<close>

definition click :: "RiskDataset \<Rightarrow> Feature \<Rightarrow> Selection" where
  "click countryData d =
     (let countryName = properties_name d
      in \<lparr>name = countryName,
          data = (case lookup countryData countryName of
                    Some found \<Rightarrow> found
                  | None \<Rightarrow> Own noData)\<rparr>)"

subsection \<open>Pulse markers (lines 525-531)\<close>

text \<open>
  \<open>pulseData\<close> keeps the entries of the dataset whose risk level is high, looks each one
  up among the features by name (\<open>Array.prototype.find\<close>: the first match), maps an
  entry without a feature to \<open>null\<close>, and drops the nulls with \<open>filter(Boolean)\<close>.
  \<open>path_centroid\<close> stands for \<open>path.centroid\<close> of the current projection.
\<close>

type_synonym Pulse = "string \<times> RiskRecord \<times> (real \<times> real)"

fun filter_Boolean :: "'a option list \<Rightarrow> 'a list" where
  "filter_Boolean [] = []"
| "filter_Boolean (None # xs) = filter_Boolean xs"
| "filter_Boolean (Some x # xs) = x # filter_Boolean xs"

definition pulseData ::
  "(Feature \<Rightarrow> real \<times> real) \<Rightarrow> RiskDataset \<Rightarrow> Feature list \<Rightarrow> Pulse list" where
  "pulseData path_centroid countryData features =
     filter_Boolean
       (map (\<lambda>(country, data).
               case find (\<lambda>f. properties_name f = country) features of
                 Some feature \<Rightarrow> Some (country, data, path_centroid feature)
               | None \<Rightarrow> None)
            (filter (\<lambda>(_, data). riskLevel data = ''high'') countryData))"

subsection \<open>The zoom transform (d3-zoom)\<close>

text \<open>
  d3-zoom keeps the view transform of an element in its property \<open>__zoom\<close>: a scale
  \<open>k\<close> and a translation \<open>(x, y)\<close>. The functions below follow the library's
  \<open>transform.js\<close> and the local functions \<open>scale\<close> and \<open>translate\<close> of its
  \<open>zoom.js\<close>. The translate extent is left at its default (unbounded), for which the
  library's \<open>constrain\<close> returns the transform as it is.
\<close>

record Transform =
  tk :: real
  tx :: real
  ty :: real

definition zoomIdentity :: Transform where
  "zoomIdentity = \<lparr>tk = 1, tx = 0, ty = 0\<rparr>"

text \<open>\<open>transform.scale(k)\<close> and \<open>transform.invert(point)\<close>.\<close>

definition transform_scale :: "Transform \<Rightarrow> real \<Rightarrow> Transform" where
  "transform_scale t c = (if c = 1 then t else t\<lparr>tk := tk t * c\<rparr>)"

definition transform_invert :: "Transform \<Rightarrow> real \<times> real \<Rightarrow> real \<times> real" where
  "transform_invert t p = ((fst p - tx t) / tk t, (snd p - ty t) / tk t)"

text \<open>
  \<open>scale(transform, k)\<close> of the zoom behaviour:
  \<^verbatim>\<open>k = Math.max(scaleExtent[0], Math.min(scaleExtent[1], k));\<close>
\<close>

definition zoom_scale :: "real \<times> real \<Rightarrow> Transform \<Rightarrow> real \<Rightarrow> Transform" where
  "zoom_scale scaleExtent t c =
     (let c' = max (fst scaleExtent) (min (snd scaleExtent) c)
      in if c' = tk t then t else t\<lparr>tk := c'\<rparr>)"

text \<open>\<open>translate(transform, p0, p1)\<close>: move so that the point \<open>p1\<close> is shown at \<open>p0\<close>.\<close>

definition zoom_translate :: "Transform \<Rightarrow> real \<times> real \<Rightarrow> real \<times> real \<Rightarrow> Transform" where
  "zoom_translate t p0 p1 =
     (let x' = fst p0 - fst p1 * tk t; y' = snd p0 - snd p1 * tk t
      in if x' = tx t \<and> y' = ty t then t else t\<lparr>tx := x', ty := y'\<rparr>)"

text \<open>
  \<open>zoom.scaleTo\<close> and \<open>zoom.scaleBy\<close> about the point \<open>p0\<close> (for the buttons: the
  centre of the svg, the centroid of the default extent).
\<close>

definition zoom_scaleTo ::
  "real \<times> real \<Rightarrow> Transform \<Rightarrow> real \<Rightarrow> real \<times> real \<Rightarrow> Transform" where
  "zoom_scaleTo scaleExtent t c p0 =
     zoom_translate (zoom_scale scaleExtent t c) p0 (transform_invert t p0)"

definition zoom_scaleBy ::
  "real \<times> real \<Rightarrow> Transform \<Rightarrow> real \<Rightarrow> real \<times> real \<Rightarrow> Transform" where
  "zoom_scaleBy scaleExtent t c p0 = zoom_scaleTo scaleExtent t (tk t * c) p0"

subsection \<open>The path of a zoom transition (d3-interpolate)\<close>

text \<open>
  \<open>d3.interpolateZoom\<close> moves between two views \<open>(ux, uy, w)\<close>, centre and width, along
  the smooth path of van Wijk and Nuij, with \<open>rho = Math.SQRT2\<close>. The functions below
  follow \<open>zoom.js\<close> of d3-interpolate, which has its own hyperbolic functions. When the
  two centres differ, the path widens before it narrows: the width is largest where the
  argument of the last \<open>cosh\<close> is 0, at the time \<open>apex\<close>.
\<close>

definition epsilon2 :: real where
  "epsilon2 = 1 / 10 ^ 12"

definition rho :: real where
  "rho = sqrt 2"

definition d3_cosh :: "real \<Rightarrow> real" where
  "d3_cosh x = (exp x + 1 / exp x) / 2"

definition d3_sinh :: "real \<Rightarrow> real" where
  "d3_sinh x = (exp x - 1 / exp x) / 2"

definition d3_tanh :: "real \<Rightarrow> real" where
  "d3_tanh x = (exp (2 * x) - 1) / (exp (2 * x) + 1)"

type_synonym view = "real \<times> real \<times> real"

definition view_d2 :: "view \<Rightarrow> view \<Rightarrow> real" where
  "view_d2 p0 p1 =
     (let dx = fst p1 - fst p0; dy = fst (snd p1) - fst (snd p0) in dx * dx + dy * dy)"

definition view_b0 :: "view \<Rightarrow> view \<Rightarrow> real" where
  "view_b0 p0 p1 =
     (let w0 = snd (snd p0); w1 = snd (snd p1); d2 = view_d2 p0 p1; d1 = sqrt d2
      in (w1 * w1 - w0 * w0 + 4 * d2) / (2 * w0 * 2 * d1))"

definition view_b1 :: "view \<Rightarrow> view \<Rightarrow> real" where
  "view_b1 p0 p1 =
     (let w0 = snd (snd p0); w1 = snd (snd p1); d2 = view_d2 p0 p1; d1 = sqrt d2
      in (w1 * w1 - w0 * w0 - 4 * d2) / (2 * w1 * 2 * d1))"

definition view_r0 :: "view \<Rightarrow> view \<Rightarrow> real" where
  "view_r0 p0 p1 = (let b0 = view_b0 p0 p1 in ln (sqrt (b0 * b0 + 1) - b0))"

definition view_r1 :: "view \<Rightarrow> view \<Rightarrow> real" where
  "view_r1 p0 p1 = (let b1 = view_b1 p0 p1 in ln (sqrt (b1 * b1 + 1) - b1))"

definition interpolateZoom :: "view \<Rightarrow> view \<Rightarrow> real \<Rightarrow> view" where
  "interpolateZoom p0 p1 t =
     (let ux0 = fst p0; uy0 = fst (snd p0); w0 = snd (snd p0);
          ux1 = fst p1; uy1 = fst (snd p1); w1 = snd (snd p1);
          dx = ux1 - ux0; dy = uy1 - uy0; d2 = view_d2 p0 p1
      in if d2 < epsilon2
         then (let S = ln (w1 / w0) / rho
               in (ux0 + t * dx, uy0 + t * dy, w0 * exp (rho * t * S)))
         else (let d1 = sqrt d2;
                   S = (view_r1 p0 p1 - view_r0 p0 p1) / rho;
                   s = t * S;
                   coshr0 = d3_cosh (view_r0 p0 p1);
                   u = w0 / (2 * d1)
                         * (coshr0 * d3_tanh (rho * s + view_r0 p0 p1) - d3_sinh (view_r0 p0 p1))
               in (ux0 + u * dx, uy0 + u * dy, w0 * coshr0 / d3_cosh (rho * s + view_r0 p0 p1))))"


subsection \<open>The projection (d3-geo)\<close>

datatype ProjectionFunc =
    geoMercator | geoEquirectangular | geoRobinson | geoWinkel3 | geoEckert4
  | geoOrthographic | geoNaturalEarth1

text \<open>
  The angles of the rotation are JavaScript numbers: they are \<open>NaN\<close> once the drag
  handler has computed with a pointer position that is \<open>NaN\<close>.
\<close>

datatype number = Num real | NaN

fun num_add :: "number \<Rightarrow> number \<Rightarrow> number" where
  "num_add (Num a) (Num b) = Num (a + b)"
| "num_add _ _ = NaN"

fun num_sub :: "number \<Rightarrow> number \<Rightarrow> number" where
  "num_sub (Num a) (Num b) = Num (a - b)"
| "num_sub _ _ = NaN"

fun num_mul :: "number \<Rightarrow> number \<Rightarrow> number" where
  "num_mul (Num a) (Num b) = Num (a * b)"
| "num_mul _ _ = NaN"

record Projection =
  raw :: ProjectionFunc
  pscale :: real
  ptranslate :: "real \<times> real"
  protate :: "number \<times> number \<times> number"
  pclipAngle :: "real option"

text \<open>
  The remainder operator \<open>%\<close> of JavaScript truncates the quotient towards zero.
  \<open>projection.rotate([lambda, phi])\<close> stores each angle modulo 360 and, for an array of
  two angles, sets the third to 0; \<open>projection.rotate()\<close> reads the three angles back.
\<close>

definition js_rem :: "real \<Rightarrow> real \<Rightarrow> real" where
  "js_rem a b = a - b * of_int (if 0 \<le> a / b then \<lfloor>a / b\<rfloor> else \<lceil>a / b\<rceil>)"

fun num_rem :: "number \<Rightarrow> real \<Rightarrow> number" where
  "num_rem (Num a) b = Num (js_rem a b)"
| "num_rem NaN b = NaN"

definition projection_rotate :: "number \<times> number \<Rightarrow> Projection \<Rightarrow> Projection" where
  "projection_rotate r p =
     p\<lparr>protate := (num_rem (fst r) 360, num_rem (snd r) 360, Num 0)\<rparr>"

text \<open>The \<open>switch (mapProjection)\<close> of lines 287-315 and \<open>minZoom\<close> of line 349.\<close>

definition projectionFunc :: "string \<Rightarrow> ProjectionFunc" where
  "projectionFunc mapProjection =
     (if mapProjection = ''mercator'' then geoMercator
      else if mapProjection = ''equirectangular'' then geoEquirectangular
      else if mapProjection = ''robinson'' then geoRobinson
      else if mapProjection = ''winkel3'' then geoWinkel3
      else if mapProjection = ''eckert4'' then geoEckert4
      else if mapProjection = ''orthographic'' then geoOrthographic
      else geoNaturalEarth1)"

definition scaleMultiplier :: "string \<Rightarrow> real" where
  "scaleMultiplier mapProjection =
     (if mapProjection = ''mercator'' then 0.08
      else if mapProjection = ''equirectangular'' then 0.11
      else if mapProjection = ''robinson'' then 0.11
      else if mapProjection = ''winkel3'' then 0.11
      else if mapProjection = ''eckert4'' then 0.11
      else if mapProjection = ''orthographic'' then 0.4
      else 0.08)"

definition minZoom :: "string \<Rightarrow> real" where
  "minZoom mapProjection = (if mapProjection = ''orthographic'' then 0.8 else 0.5)"

subsection \<open>What the map effect builds (lines 255-453)\<close>

text \<open>
  The state of one build of the map: the svg, the projection, the closure variables
  \<open>v0\<close> and \<open>q0\<close> of the drag handlers, whether d3-drag is in the middle of a drag
  gesture of the mouse or of a touch, the zoom behaviour with the transform it keeps
  on the svg, the transform attribute of the group \<open>g\<close>, the anchor of a running
  mouse pan of d3-zoom, the titles of the control buttons, and what the geometry load adds:
  the country paths (name and fill) and the pulse circles.
\<close>

record Mount =
  svg_width :: real
  svg_height :: real
  svg_background :: string
  projection :: Projection
  dragHandlers :: bool
  v0 :: "(number \<times> number) option"
  q0 :: "(number \<times> number \<times> number) option"
  mouseDrag :: bool
  touchDrag :: bool
  scaleExtent :: "real \<times> real"
  zoomT :: Transform
  g_transform :: "Transform option"
  panAnchor :: "(real \<times> real) option"
  controls :: "string list"
  paths :: "(string \<times> string) list"
  circles :: "Pulse list"

definition buildMap :: "real \<Rightarrow> real \<Rightarrow> bool \<Rightarrow> string \<Rightarrow> Mount" where
  "buildMap width height darkMode mapProjection =
     \<lparr>svg_width = width, svg_height = height,
      svg_background = (if darkMode then ''#000000'' else ''#f3f4f6''),
      projection =
        \<lparr>raw = projectionFunc mapProjection,
         pscale = min width height * scaleMultiplier mapProjection,
         ptranslate = (width / 2, height / 2),
         protate = (Num 0, Num 0, Num 0),
         pclipAngle = (if mapProjection = ''orthographic'' then Some 90 else None)\<rparr>,
      dragHandlers = (mapProjection = ''orthographic''),
      v0 = None, q0 = None, mouseDrag = False, touchDrag = False,
      scaleExtent = (minZoom mapProjection, 8),
      zoomT = zoomIdentity, g_transform = None, panAnchor = None,
      controls = [''Zoom In'', ''Zoom Out'', ''Reset Zoom'', ''Fit to Window''],
      paths = [], circles = []\<rparr>"

subsection \<open>Handlers of the map (lines 326-344, 350-363, 369, 389, 410, 432-437)\<close>

text \<open>
  The zoom listener of line 352 copies every new transform to the group:
  \<^verbatim>\<open>g.attr("transform", event.transform)\<close>.
\<close>

definition zoomed :: "Transform \<Rightarrow> Mount \<Rightarrow> Mount" where
  "zoomed t m = m\<lparr>zoomT := t, g_transform := Some t\<rparr>"

text \<open>
  A transition towards a transform, as \<open>svg.transition().duration(ms).call(...)\<close>
  schedules it: for \<open>duration\<close> milliseconds (250 unless set) the library writes, frame
  by frame, the views of \<open>d3.interpolateZoom\<close> between the transform at the start and
  \<open>target\<close> to the svg, without clamping them, and at the end it writes \<open>target\<close> itself.
  \<open>tween m b t\<close> is the transform of the frame at the eased time \<open>t\<close> between 0 and 1,
  computed as in \<open>schedule\<close> of d3-zoom about the centre of the svg, with the larger side
  of the svg as width.
\<close>

record Transition =
  duration :: nat
  target :: Transform

definition centre :: "Mount \<Rightarrow> real \<times> real" where
  "centre m = (svg_width m / 2, svg_height m / 2)"

definition tween :: "Mount \<Rightarrow> Transform \<Rightarrow> real \<Rightarrow> Transform" where
  "tween m b t =
     (if t = 1 then b
      else let p = centre m;
               w = max (svg_width m) (svg_height m);
               a = zoomT m;
               ua = transform_invert a p;
               ub = transform_invert b p;
               l = interpolateZoom (fst ua, snd ua, w / tk a) (fst ub, snd ub, w / tk b) t;
               k = w / snd (snd l)
           in \<lparr>tk = k, tx = fst p - fst l * k, ty = snd p - fst (snd l) * k\<rparr>)"

definition zoomInClick :: "Mount \<Rightarrow> Transition" where
  "zoomInClick m =
     \<lparr>duration = 250, target = zoom_scaleBy (scaleExtent m) (zoomT m) 1.3 (centre m)\<rparr>"

definition zoomOutClick :: "Mount \<Rightarrow> Transition" where
  "zoomOutClick m =
     \<lparr>duration = 250, target = zoom_scaleBy (scaleExtent m) (zoomT m) 0.7 (centre m)\<rparr>"

definition resetZoomClick :: "Mount \<Rightarrow> Transition" where
  "resetZoomClick m = \<lparr>duration = 750, target = zoomIdentity\<rparr>"

definition fitToWindowClick :: "Mount \<Rightarrow> Transition" where
  "fitToWindowClick m = \<lparr>duration = 750, target = transform_scale zoomIdentity 0.9\<rparr>"

text \<open>Line 359 replaces the library's own \<open>dblclick.zoom\<close> listener.\<close>

definition dblclick_zoom :: "Mount \<Rightarrow> Transition" where
  "dblclick_zoom m = \<lparr>duration = 750, target = zoomIdentity\<rparr>"

text \<open>
  A transition that runs to its end leaves its target; one that is interrupted after the
  frame at the eased time \<open>t\<close> (by a pointer-down, a wheel event or the next transition)
  leaves the transform of that frame.
\<close>

definition run :: "Transition \<Rightarrow> Mount \<Rightarrow> Mount" where
  "run tr m = zoomed (target tr) m"

definition cut :: "Transition \<Rightarrow> real \<Rightarrow> Mount \<Rightarrow> Mount" where
  "cut tr t m = zoomed (tween m (target tr) t) m"

text \<open>
  The drag handlers of the globe. Both read the pointer with \<open>d3.pointer(event)\<close>,
  passed in here as a pair of numbers. \<open>dragged\<close> reads the closure variables that
  \<open>dragstarted\<close> wrote; d3-drag calls it only between the start and the end of a gesture.
\<close>

definition dragstarted :: "number \<times> number \<Rightarrow> Mount \<Rightarrow> Mount" where
  "dragstarted p m = m\<lparr>v0 := Some p, q0 := Some (protate (projection m))\<rparr>"

definition r1 ::
  "number \<times> number \<times> number \<Rightarrow> number \<times> number \<Rightarrow> number \<times> number \<Rightarrow> number \<times> number" where
  "r1 q v v1 =
     (num_add (fst q) (num_mul (num_sub (fst v1) (fst v)) (Num 0.5)),
      num_sub (fst (snd q)) (num_mul (num_sub (snd v1) (snd v)) (Num 0.5)))"

definition dragged :: "number \<times> number \<Rightarrow> Mount \<Rightarrow> Mount" where
  "dragged v1 m =
     (case (v0 m, q0 m) of
        (Some v, Some q) \<Rightarrow> m\<lparr>projection := projection_rotate (r1 q v v1) (projection m)\<rparr>
      | _ \<Rightarrow> m)"

text \<open>
  What \<open>d3.pointer(event)\<close> returns in the two drag handlers. It converts the client
  position of the source event into the coordinates of the event's current target. At the
  drag start the source event is the pointer-down on the svg and the result is the
  position inside the svg. For a drag-move of the mouse the source event is a mousemove
  that d3-drag listens to on the window: the window has no coordinate system of its own
  and the result is the position in the page. A touch event has no client position of its
  own, and the result is \<open>NaN\<close> in both coordinates.
\<close>

definition inSvg :: "real \<times> real \<Rightarrow> number \<times> number" where
  "inSvg p = (Num (fst p), Num (snd p))"

definition inPage :: "real \<times> real \<Rightarrow> number \<times> number" where
  "inPage p = (Num (fst p), Num (snd p))"

definition ofTouch :: "number \<times> number" where
  "ofTouch = (NaN, NaN)"

text \<open>
  Events on the svg. The five commands (the four buttons and the double click) stand for
  the command with its transition run to the end; \<open>Cut c t\<close> is the command \<open>c\<close> whose
  transition is interrupted after the frame at the eased time \<open>t\<close>. A wheel event
  carries the value of the library's \<open>wheelDelta\<close> and the pointer; it zooms about the
  pointer by the factor \<open>2 ^ wheelDelta\<close>. A pointer-down and a pointer-move of the mouse
  carry the position of the pointer inside the svg and its position in the page. A touch
  move carries the position of the touch and its anchor; a pinch is a move of two touches
  and carries the scale the library computed from them, their midpoint and the midpoint
  of their anchors.

  On the globe d3-drag is attached to the svg before the zoom behaviour and stops the
  propagation of the pointer-down and of the touch start, so a drag rotates and the zoom
  behaviour sees no pan and no pinch; elsewhere no drag handler exists, a drag of the
  mouse or of one touch pans (the point under the pointer at pointer-down stays under the
  pointer) and a pinch zooms.
\<close>

datatype Event =
    ClickZoomIn | ClickZoomOut | ClickResetZoom | ClickFitToWindow
  | DblClick
  | Cut Event real
  | Wheel real "real \<times> real"
  | TouchStart
  | TouchMove "real \<times> real" "real \<times> real"
  | Pinch real "real \<times> real" "real \<times> real"
  | TouchEnd
  | PointerDown "real \<times> real" "real \<times> real"
  | PointerMove "real \<times> real" "real \<times> real"
  | PointerUp

fun transitionOf :: "Event \<Rightarrow> Mount \<Rightarrow> Transition option" where
  "transitionOf ClickZoomIn m = Some (zoomInClick m)"
| "transitionOf ClickZoomOut m = Some (zoomOutClick m)"
| "transitionOf ClickResetZoom m = Some (resetZoomClick m)"
| "transitionOf ClickFitToWindow m = Some (fitToWindowClick m)"
| "transitionOf DblClick m = Some (dblclick_zoom m)"
| "transitionOf _ m = None"

fun handle :: "Event \<Rightarrow> Mount \<Rightarrow> Mount" where
  "handle ClickZoomIn m = run (zoomInClick m) m"
| "handle ClickZoomOut m = run (zoomOutClick m) m"
| "handle ClickResetZoom m = run (resetZoomClick m) m"
| "handle ClickFitToWindow m = run (fitToWindowClick m) m"
| "handle DblClick m = run (dblclick_zoom m) m"
| "handle (Cut c t) m =
     (case transitionOf c m of Some tr \<Rightarrow> cut tr t m | None \<Rightarrow> handle c m)"
| "handle (Wheel wheelDelta p) m =
     (let t = zoomT m;
          c = max (fst (scaleExtent m)) (min (snd (scaleExtent m)) (tk t * 2 powr wheelDelta))
      in if tk t = c then m
         else zoomed (zoom_translate (zoom_scale (scaleExtent m) t c) p (transform_invert t p)) m)"
| "handle TouchStart m =
     (if dragHandlers m then (dragstarted ofTouch m)\<lparr>touchDrag := True\<rparr> else m)"
| "handle (TouchMove p l) m =
     (if dragHandlers m then (if touchDrag m then dragged ofTouch m else m)
      else zoomed (zoom_translate (zoomT m) p l) m)"
| "handle (Pinch c p l) m =
     (if dragHandlers m then (if touchDrag m then dragged ofTouch m else m)
      else zoomed (zoom_translate (zoom_scale (scaleExtent m) (zoomT m) c) p l) m)"
| "handle TouchEnd m = m\<lparr>touchDrag := False\<rparr>"
| "handle (PointerDown s pg) m =
     (if dragHandlers m then (dragstarted (inSvg s) m)\<lparr>mouseDrag := True\<rparr>
      else m\<lparr>panAnchor := Some (transform_invert (zoomT m) s)\<rparr>)"
| "handle (PointerMove s pg) m =
     (if dragHandlers m then (if mouseDrag m then dragged (inPage pg) m else m)
      else case panAnchor m of
             Some l \<Rightarrow> zoomed (zoom_translate (zoomT m) s l) m
           | None \<Rightarrow> m)"
| "handle PointerUp m = m\<lparr>panAnchor := None, mouseDrag := False\<rparr>"

definition handles :: "Event list \<Rightarrow> Mount \<Rightarrow> Mount" where
  "handles es m = foldl (\<lambda>m e. handle e m) m es"


subsection \<open>The component state and the map effect (lines 252-560)\<close>

text \<open>
  The part of the React state that the map reads or writes, with the DOM that the effect
  built last (\<open>None\<close> before the first build). \<open>clientWidth\<close> is \<open>None\<close> when
  \<open>d3Container.current\<close> is null.
\<close>

record Env =
  clientWidth :: "real option"
  innerHeight :: real

record Dashboard =
  activeTab :: string
  countryData :: RiskDataset
  darkMode :: bool
  isMapFullscreen :: bool
  mapProjection :: string
  selectedCountry :: "Selection option"
  notifications :: "(string \<times> string) list"
  mapDom :: "Mount option"

definition mapHeight :: "Env \<Rightarrow> Dashboard \<Rightarrow> real" where
  "mapHeight env st =
     (if isMapFullscreen st then innerHeight env - 100
      else min 900 (max 700 (innerHeight env - 250)))"

text \<open>
  The effect returns at once without a container or outside the map tab; otherwise it
  removes every child of the container and builds the map anew.
\<close>

definition mapEffect :: "Env \<Rightarrow> Dashboard \<Rightarrow> Dashboard" where
  "mapEffect env st =
     (case clientWidth env of
        None \<Rightarrow> st
      | Some width \<Rightarrow>
          if activeTab st \<noteq> ''map'' then st
          else st\<lparr>mapDom :=
                 Some (buildMap width (mapHeight env st) (darkMode st) (mapProjection st))\<rparr>)"

text \<open>
  The projection selector calls \<open>setMapProjection\<close> (line 1163). \<open>mapProjection\<close> is in
  the dependency array of the effect (line 560), so React runs the effect again when the
  value has changed.
\<close>

definition setMapProjection :: "Env \<Rightarrow> string \<Rightarrow> Dashboard \<Rightarrow> Dashboard" where
  "setMapProjection env v st =
     (if v = mapProjection st then st else mapEffect env (st\<lparr>mapProjection := v\<rparr>))"

text \<open>An event on the svg acts on the DOM of the current build.\<close>

definition domEvent :: "Event \<Rightarrow> Dashboard \<Rightarrow> Dashboard" where
  "domEvent e st = st\<lparr>mapDom := map_option (handle e) (mapDom st)\<rparr>"

text \<open>
  The geometry load, \<open>d3.json(url).then(callback)\<close> of lines 456-555, has no rejection
  handler. When the promise is fulfilled the callback appends one path for each feature
  and one circle for each pulse; when the fetch fails, or \<open>topojson.feature\<close> throws on
  the document in the first line of the callback, nothing of the callback's drawing runs.
\<close>

datatype Load = Fulfilled "Feature list" | Failed

definition worldLoaded ::
  "(Feature \<Rightarrow> real \<times> real) \<Rightarrow> Feature list \<Rightarrow> Dashboard \<Rightarrow> Mount \<Rightarrow> Mount" where
  "worldLoaded path_centroid features st m =
     m\<lparr>paths := map (\<lambda>d. (properties_name d, fill (darkMode st) (countryData st) d)) features,
       circles := pulseData path_centroid (countryData st) features\<rparr>"

definition loadSettled ::
  "(Feature \<Rightarrow> real \<times> real) \<Rightarrow> Load \<Rightarrow> Dashboard \<Rightarrow> Dashboard" where
  "loadSettled path_centroid r st =
     (case r of
        Fulfilled features \<Rightarrow>
          st\<lparr>mapDom := map_option (worldLoaded path_centroid features st) (mapDom st)\<rparr>
      | Failed \<Rightarrow> st)"

text \<open>The click listener of a country path.\<close>

definition clicked :: "Feature \<Rightarrow> Dashboard \<Rightarrow> Dashboard" where
  "clicked d st = st\<lparr>selectedCountry := Some (click (countryData st) d)\<rparr>"

text \<open>
  \<open>addNotification\<close> (lines 132-147) puts a message and its type in front of the
  notifications and keeps the first ten. \<open>handleRefresh\<close> announces the refresh, and
  when its timer has run out stores the refreshed dataset and announces the success; the
  dataset is in the dependency array of the map effect, which therefore runs again.
  A refresh is taken as one step.
\<close>

definition addNotification :: "string \<Rightarrow> string \<Rightarrow> Dashboard \<Rightarrow> Dashboard" where
  "addNotification message type st =
     st\<lparr>notifications := take 10 ((message, type) # notifications st)\<rparr>"

definition handleRefresh :: "Env \<Rightarrow> (nat \<Rightarrow> real) \<Rightarrow> Dashboard \<Rightarrow> Dashboard" where
  "handleRefresh env rnd st =
     (let st1 = addNotification ''Refreshing data...'' ''info'' st;
          st2 = st1\<lparr>countryData := updatedCountryData rnd (countryData st1)\<rparr>;
          st3 = addNotification ''Data refreshed successfully'' ''success'' st2
      in mapEffect env st3)"

text \<open>A run of refreshes, each with its own random draws.\<close>

definition refreshes :: "Env \<Rightarrow> (nat \<Rightarrow> real) list \<Rightarrow> Dashboard \<Rightarrow> Dashboard" where
  "refreshes env rnds st = foldl (\<lambda>st rnd. handleRefresh env rnd st) st rnds"

subsection \<open>The scale extent as a predicate on a build\<close>


subsection \<open>Concrete inputs\<close>

text \<open>
  The dashboard as it starts (map tab, dark mode, Natural Earth) in a window whose
  container is 1000 pixels wide and whose inner height is 1000 pixels; the same after the
  map was built and the zoom-in button clicked once; a window whose container has width 0; a random source that always draws a decrease by four; and the
  dataset of the three countries X, Y and Z used as an example in the specification;
  a dataset with one country of each risk level.
\<close>

definition st0 :: Dashboard where
  "st0 = \<lparr>activeTab = ''map'', countryData = initialCountryData, darkMode = True,
          isMapFullscreen = False, mapProjection = ''natural'', selectedCountry = None,
          notifications = [], mapDom = None\<rparr>"

definition env0 :: Env where
  "env0 = \<lparr>clientWidth = Some 1000, innerHeight = 1000\<rparr>"

definition zoomedIn :: Dashboard where
  "zoomedIn = domEvent ClickZoomIn (mapEffect env0 st0)"

definition envZero :: Env where
  "envZero = \<lparr>clientWidth = Some 0, innerHeight = 1000\<rparr>"

definition rnd0 :: "nat \<Rightarrow> real" where
  "rnd0 i = (if even i then 1 / 4 else 9 / 10)"

definition xyz :: "RiskRecord \<Rightarrow> RiskDataset" where
  "xyz r = [(''X'', r\<lparr>riskLevel := ''high''\<rparr>), (''Y'', r\<lparr>riskLevel := ''medium''\<rparr>),
            (''Z'', r\<lparr>riskLevel := ''high''\<rparr>)]"

definition hml :: RiskDataset where
  "hml = [(''H'', noData\<lparr>riskLevel := ''high''\<rparr>), (''M'', noData\<lparr>riskLevel := ''medium''\<rparr>),
          (''L'', noData)]"

definition featureNamed :: "string \<Rightarrow> Feature" where
  "featureNamed n = \<lparr>properties_name = n, shape = 0\<rparr>"

definition origin :: "Feature \<Rightarrow> real \<times> real" where
  "origin f = (0, 0)"




section \<open>Properties\<close>

subsection \<open>Auxiliary facts: the zoom behaviour\<close>














lemma dragHandlers_handle: "dragHandlers (handle e m) = dragHandlers m"
  by (induction e arbitrary: m)
     (auto simp: run_def cut_def zoomed_def dragstarted_def dragged_def Let_def
           split: option.splits)

lemma handles_snoc: "handles (es @ [e]) m = handle e (handles es m)"
  by (simp add: handles_def)



lemma dragHandlers_handles: "dragHandlers (handles es m) = dragHandlers m"
  by (induction es rule: rev_induct) (simp_all add: handles_snoc dragHandlers_handle handles_def)








subsection \<open>Auxiliary facts: a reset from the panned map\<close>




















subsection \<open>Auxiliary facts: dataset and rotation\<close>

lemma filter_Boolean_set: "set (filter_Boolean xs) = {x. Some x \<in> set xs}"
  by (induction xs rule: filter_Boolean.induct) auto

lemma find_None_names:
  "(find (\<lambda>f. properties_name f = c) fs = None) = (c \<notin> properties_name ` set fs)"
  by (auto simp: find_None_iff)

text \<open>The countries of the pulse data: high risk in the dataset, and drawn in the geometry.\<close>

lemma pulse_names:
  "fst ` set (pulseData pc cd fs) =
     {c. \<exists>r. (c, r) \<in> set cd \<and> riskLevel r = ''high''} \<inter> properties_name ` set fs"
proof (rule set_eqI)
  fix c
  show "(c \<in> fst ` set (pulseData pc cd fs)) =
        (c \<in> {c. \<exists>r. (c, r) \<in> set cd \<and> riskLevel r = ''high''} \<inter> properties_name ` set fs)"
  proof
    assume "c \<in> fst ` set (pulseData pc cd fs)"
    then obtain r q where "(c, r, q) \<in> set (pulseData pc cd fs)" by auto
    then obtain c' r' where e: "(c', r') \<in> set cd" "riskLevel r' = ''high''"
      and s: "(case find (\<lambda>f. properties_name f = c') fs of
                 Some feature \<Rightarrow> Some (c', r', pc feature) | None \<Rightarrow> None) = Some (c, r, q)"
      by (auto simp: pulseData_def filter_Boolean_set)
    from s have "c' = c" "r' = r" "find (\<lambda>f. properties_name f = c') fs \<noteq> None"
      by (auto split: option.splits)
    with e show "c \<in> {c. \<exists>r. (c, r) \<in> set cd \<and> riskLevel r = ''high''}
                      \<inter> properties_name ` set fs"
      by (auto simp: find_None_names)
  next
    assume "c \<in> {c. \<exists>r. (c, r) \<in> set cd \<and> riskLevel r = ''high''} \<inter> properties_name ` set fs"
    then obtain r where e: "(c, r) \<in> set cd" "riskLevel r = ''high''"
      and f: "c \<in> properties_name ` set fs" by auto
    from f obtain ft where ft: "find (\<lambda>f. properties_name f = c) fs = Some ft"
      using find_None_names [of c fs] by (cases "find (\<lambda>f. properties_name f = c) fs") auto
    have "Some (c, r, pc ft) \<in> set (map (\<lambda>(country, data).
               case find (\<lambda>f. properties_name f = country) fs of
                 Some feature \<Rightarrow> Some (country, data, pc feature)
               | None \<Rightarrow> None)
            (filter (\<lambda>(_, data). riskLevel data = ''high'') cd))"
      using e ft by (force simp: image_iff)
    then have "(c, r, pc ft) \<in> set (pulseData pc cd fs)"
      by (simp add: pulseData_def filter_Boolean_set)
    then show "c \<in> fst ` set (pulseData pc cd fs)" by force
  qed
qed

lemma pulse_xyz:
  assumes "''X'' \<in> properties_name ` set fs" "''Z'' \<in> properties_name ` set fs"
  shows "map fst (pulseData pc (xyz r) fs) = [''X'', ''Z'']"
proof -
  obtain fx where fx: "find (\<lambda>f. properties_name f = ''X'') fs = Some fx"
    using assms(1) find_None_names [of "''X''" fs]
    by (cases "find (\<lambda>f. properties_name f = ''X'') fs") auto
  obtain fz where fz: "find (\<lambda>f. properties_name f = ''Z'') fs = Some fz"
    using assms(2) find_None_names [of "''Z''" fs]
    by (cases "find (\<lambda>f. properties_name f = ''Z'') fs") auto
  show ?thesis
    by (simp add: pulseData_def xyz_def fx fz)
qed

text \<open>A refresh leaves the dataset to \<open>updatedCountryData\<close> alone.\<close>

lemma countryData_mapEffect: "countryData (mapEffect env st) = countryData st"
  by (simp add: mapEffect_def split: option.splits)

lemma countryData_handleRefresh:
  "countryData (handleRefresh env rnd st) = updatedCountryData rnd (countryData st)"
  by (simp add: handleRefresh_def addNotification_def countryData_mapEffect Let_def)

text \<open>The remainder of an angle that is already inside the full turn.\<close>

lemma js_rem_small:
  assumes "0 < b" "\<bar>a\<bar> < b"
  shows "js_rem a b = a"
proof (cases "0 \<le> a / b")
  case True
  with assms have "0 \<le> a" by (simp add: zero_le_divide_iff)
  with assms have "a / b < 1" by simp
  with True have "\<lfloor>a / b\<rfloor> = 0" by (simp add: floor_eq_iff)
  with True show ?thesis by (simp add: js_rem_def)
next
  case False
  with assms have "a < 0" by (simp add: zero_le_divide_iff not_le)
  with assms have "- 1 < a / b" by (simp add: pos_less_divide_eq)
  with False have "\<lceil>a / b\<rceil> = 0" by (simp add: ceiling_eq_iff not_le)
  with False show ?thesis by (simp add: js_rem_def)
qed

subsection \<open>Switching the projection\<close>

text \<open>
  C1. The claim: a projection switch keeps the scale and the translation of the view
  transform. After one click on the zoom-in button the transform of the Natural Earth map
  is scale 1.3, translate (-150, -112.5); the switch to the globe rebuilds the svg and its
  zoom behaviour, and the transform is the identity again.
\<close>

theorem projection_switch_counterexample:
  "map_option zoomT (mapDom zoomedIn) = Some \<lparr>tk = 13 / 10, tx = - 150, ty = - 225 / 2\<rparr> \<and>
   map_option zoomT (mapDom (setMapProjection env0 ''orthographic'' zoomedIn))
     = Some \<lparr>tk = 1, tx = 0, ty = 0\<rparr> \<and>
   map_option zoomT (mapDom (setMapProjection env0 ''orthographic'' zoomedIn))
     \<noteq> map_option zoomT (mapDom zoomedIn)"
  by (simp add: zoomedIn_def domEvent_def mapEffect_def env0_def st0_def setMapProjection_def
                buildMap_def zoomIdentity_def run_def zoomed_def zoomInClick_def centre_def
                zoom_scaleBy_def zoom_scaleTo_def zoom_scale_def zoom_translate_def
                transform_invert_def mapHeight_def minZoom_def Let_def)

text \<open>
  C1, amended. While the map is mounted (the container exists and the map tab is active),
  every switch to another projection rebuilds the map from scratch: whatever the view was
  before, after the switch the scale is 1 and the translation (0, 0), the group carries no
  transform, and the rotation is (0, 0, 0). Pan and zoom survive the switch only if they
  were the identity before.
\<close>

theorem projection_switch_resets_view:
  assumes "clientWidth env = Some w" "activeTab st = ''map''" "v \<noteq> mapProjection st"
  shows "mapProjection (setMapProjection env v st) = v \<and>
         map_option zoomT (mapDom (setMapProjection env v st))
           = Some \<lparr>tk = 1, tx = 0, ty = 0\<rparr> \<and>
         map_option g_transform (mapDom (setMapProjection env v st)) = Some None \<and>
         map_option (protate \<circ> projection) (mapDom (setMapProjection env v st))
           = Some (Num 0, Num 0, Num 0)"
  using assms
  by (simp add: setMapProjection_def mapEffect_def buildMap_def zoomIdentity_def)

theorem projection_switch_resets_view_witness:
  "map_option zoomT (mapDom (setMapProjection env0 ''orthographic'' zoomedIn))
     = Some \<lparr>tk = 1, tx = 0, ty = 0\<rparr>"
proof -
  have a: "clientWidth env0 = Some 1000" by (simp add: env0_def)
  have b: "activeTab zoomedIn = ''map''"
    by (simp add: zoomedIn_def domEvent_def mapEffect_def env0_def st0_def)
  have c: "''orthographic'' \<noteq> mapProjection zoomedIn"
    by (simp add: zoomedIn_def domEvent_def mapEffect_def env0_def st0_def)
  from projection_switch_resets_view [OF a b c] show ?thesis by blast
qed

subsection \<open>The geometry load\<close>

text \<open>
  C2. The claim: when the geometry load fails the engine enters an error state, notifies
  the host and draws no partial map, and nothing is rendered before the load resolves.
  In the code a failed load reaches no handler: the state after the failure is the state
  before it, the host has no notification, and the svg with its four zoom controls, drawn
  before the load began, stays on screen.
\<close>

theorem load_failure_counterexample:
  "notifications (loadSettled origin Failed (mapEffect env0 st0)) = [] \<and>
   map_option controls (mapDom (loadSettled origin Failed (mapEffect env0 st0)))
     = Some [''Zoom In'', ''Zoom Out'', ''Reset Zoom'', ''Fit to Window''] \<and>
   loadSettled origin Failed (mapEffect env0 st0) = mapEffect env0 st0"
  by (simp add: loadSettled_def mapEffect_def env0_def st0_def buildMap_def)

text \<open>
  C2, amended. While the map is mounted, the effect draws the svg and its four zoom
  controls before the geometry load resolves, with no country path and no pulse marker.
  If the fetch or the parse fails, nothing changes: the component state and the drawing
  stay exactly as they were while loading, so no country path or pulse marker is ever
  drawn, no error state is entered and the host gets no notification. The country paths,
  one for each feature, and the pulse markers are drawn only when the load is fulfilled.
\<close>

theorem load_failure_changes_nothing:
  assumes "clientWidth env = Some w" "activeTab st = ''map''"
  shows "loadSettled pc Failed (mapEffect env st) = mapEffect env st \<and>
         notifications (loadSettled pc Failed (mapEffect env st)) = notifications st \<and>
         map_option controls (mapDom (mapEffect env st))
           = Some [''Zoom In'', ''Zoom Out'', ''Reset Zoom'', ''Fit to Window''] \<and>
         map_option paths (mapDom (mapEffect env st)) = Some [] \<and>
         map_option circles (mapDom (mapEffect env st)) = Some [] \<and>
         map_option paths (mapDom (loadSettled pc (Fulfilled fs) (mapEffect env st)))
           = Some (map (\<lambda>d. (properties_name d, fill (darkMode st) (countryData st) d)) fs) \<and>
         map_option circles (mapDom (loadSettled pc (Fulfilled fs) (mapEffect env st)))
           = Some (pulseData pc (countryData st) fs)"
  using assms
  by (simp add: loadSettled_def mapEffect_def buildMap_def worldLoaded_def)

theorem load_failure_changes_nothing_witness:
  "loadSettled origin Failed (mapEffect env0 st0) = mapEffect env0 st0 \<and>
   map_option paths (mapDom (mapEffect env0 st0)) = Some []"
proof -
  have a: "clientWidth env0 = Some 1000" by (simp add: env0_def)
  have b: "activeTab st0 = ''map''" by (simp add: st0_def)
  from load_failure_changes_nothing [OF a b, of origin "[]"] show ?thesis by blast
qed

subsection \<open>The viewport\<close>

text \<open>
  C3. The claim: for a viewport whose width or height is at most 0, building the
  projection fails with an InvalidViewport error and nothing is rendered. With a container
  of width 0 the effect builds an svg of width 0 and a projection of scale 0, and when the
  geometry has loaded it draws the path of China all the same.
\<close>

theorem viewport_counterexample:
  "map_option svg_width (mapDom (mapEffect envZero st0)) = Some 0 \<and>
   map_option (pscale \<circ> projection) (mapDom (mapEffect envZero st0)) = Some 0 \<and>
   map_option paths
     (mapDom (loadSettled origin (Fulfilled [featureNamed ''China'']) (mapEffect envZero st0)))
     = Some [(''China'', ''#ef4444'')]"
  by (simp add: loadSettled_def mapEffect_def envZero_def st0_def buildMap_def worldLoaded_def
                featureNamed_def fill_def lookup_def riskLevelOf_def initialCountryData_def
                mapHeight_def)

text \<open>
  C3, amended. While the map is mounted, every viewport is accepted, also one whose width
  or height is at most 0: the effect builds the svg with that width and height and a
  projection with scale min(width, height) times the multiplier of the projection and
  translation (width / 2, height / 2), and draws one path for each feature once the
  geometry has loaded. Outside fullscreen the height is always between 700 and 900.
\<close>

theorem viewport_never_rejected:
  assumes "clientWidth env = Some w" "activeTab st = ''map''"
  shows "map_option svg_width (mapDom (mapEffect env st)) = Some w \<and>
         map_option svg_height (mapDom (mapEffect env st)) = Some (mapHeight env st) \<and>
         map_option (pscale \<circ> projection) (mapDom (mapEffect env st))
           = Some (min w (mapHeight env st) * scaleMultiplier (mapProjection st)) \<and>
         map_option (ptranslate \<circ> projection) (mapDom (mapEffect env st))
           = Some (w / 2, mapHeight env st / 2) \<and>
         map_option paths (mapDom (loadSettled pc (Fulfilled fs) (mapEffect env st)))
           = Some (map (\<lambda>d. (properties_name d, fill (darkMode st) (countryData st) d)) fs) \<and>
         (\<not> isMapFullscreen st \<longrightarrow> 700 \<le> mapHeight env st \<and> mapHeight env st \<le> 900)"
  using assms
  by (simp add: loadSettled_def mapEffect_def buildMap_def worldLoaded_def mapHeight_def)

theorem viewport_never_rejected_witness:
  "map_option svg_width (mapDom (mapEffect envZero st0)) = Some 0 \<and>
   map_option (pscale \<circ> projection) (mapDom (mapEffect envZero st0)) = Some 0 \<and>
   700 \<le> mapHeight envZero st0"
proof -
  have a: "clientWidth envZero = Some 0" by (simp add: envZero_def)
  have b: "activeTab st0 = ''map''" by (simp add: st0_def)
  have c: "\<not> isMapFullscreen st0" by (simp add: st0_def)
  from viewport_never_rejected [OF a b, of origin "[]"] c
  show ?thesis by (simp add: mapHeight_def envZero_def st0_def)
qed

subsection \<open>Zoom\<close>




subsection \<open>Data refresh\<close>

text \<open>
  C5. The claim: after any sequence of data refreshes the threat count of every country
  is at least 0. The refresh adds a random amount between -4 and 4 with no lower bound:
  four refreshes that each draw a decrease by four take Germany from 12 to -4.
\<close>

theorem refresh_negative:
  "map_option threats
     (map_of (countryData (refreshes env0 [rnd0, rnd0, rnd0, rnd0] st0)) ''Germany'') = Some (- 4)"
  by (simp add: refreshes_def countryData_handleRefresh st0_def updatedCountryData_def
                initialCountryData_def refreshCountry_def rnd0_def)

subsection \<open>Selection\<close>

text \<open>
  For a name that is neither a key of the dataset nor a member of \<open>Object.prototype\<close>,
  a click selects the default record; for a key it selects the record of that key.
\<close>

lemma clicked_other_names:
  "(properties_name d \<notin> fst ` set (countryData st) \<longrightarrow>
    properties_name d \<notin> set objectPrototype \<longrightarrow>
      selectedCountry (clicked d st) =
        Some \<lparr>name = properties_name d,
              data = Own \<lparr>threats = 0, incidents = 0, riskLevel = ''low'',
                          lastUpdate = ''No data'', trend = ''stable'', activeThreats = [],
                          topTargets = [], mitigationStatus = ''N/A''\<rparr>\<rparr>) \<and>
   (distinct (map fst (countryData st)) \<longrightarrow> (properties_name d, r) \<in> set (countryData st) \<longrightarrow>
      selectedCountry (clicked d st) = Some \<lparr>name = properties_name d, data = Own r\<rparr>)"
proof (intro conjI impI)
  assume "properties_name d \<notin> fst ` set (countryData st)"
    and "properties_name d \<notin> set objectPrototype"
  then have "map_of (countryData st) (properties_name d) = None"
    and "properties_name d \<notin> set objectPrototype"
    by (simp_all add: map_of_eq_None_iff)
  then have "lookup (countryData st) (properties_name d) = None"
    by (simp add: lookup_def)
  then show "selectedCountry (clicked d st) =
        Some \<lparr>name = properties_name d,
              data = Own \<lparr>threats = 0, incidents = 0, riskLevel = ''low'',
                          lastUpdate = ''No data'', trend = ''stable'', activeThreats = [],
                          topTargets = [], mitigationStatus = ''N/A''\<rparr>\<rparr>"
    by (simp add: clicked_def click_def noData_def)
next
  assume "distinct (map fst (countryData st))" "(properties_name d, r) \<in> set (countryData st)"
  then have "map_of (countryData st) (properties_name d) = Some r"
    by (rule map_of_is_SomeI)
  then show "selectedCountry (clicked d st) = Some \<lparr>name = properties_name d, data = Own r\<rparr>"
    by (simp add: clicked_def click_def lookup_def)
qed


subsection \<open>Fill\<close>

text \<open>
  For a name that is neither a key of the dataset nor a member of \<open>Object.prototype\<close>
  the fill is the neutral colour of the theme; for a key the risk level decides.
\<close>

lemma fill_other_names:
  "paths (worldLoaded pc fs st m) =
     map (\<lambda>d. (properties_name d, fill (darkMode st) (countryData st) d)) fs \<and>
   (distinct (map fst cd) \<longrightarrow> (properties_name d, r) \<in> set cd \<longrightarrow>
      (riskLevel r = ''high'' \<longrightarrow> fill dm cd d = ''#ef4444'') \<and>
      (riskLevel r = ''medium'' \<longrightarrow> fill dm cd d = ''#f59e0b'') \<and>
      (riskLevel r = ''low'' \<longrightarrow> fill dm cd d = ''#10b981'')) \<and>
   (properties_name d \<notin> fst ` set cd \<longrightarrow> properties_name d \<notin> set objectPrototype \<longrightarrow>
      fill True cd d = ''#374151'' \<and> fill False cd d = ''#e5e7eb'')"
proof (intro conjI impI)
  show "paths (worldLoaded pc fs st m) =
     map (\<lambda>d. (properties_name d, fill (darkMode st) (countryData st) d)) fs"
    by (simp add: worldLoaded_def)
next
  assume "properties_name d \<notin> fst ` set cd" "properties_name d \<notin> set objectPrototype"
  then have "map_of cd (properties_name d) = None"
    and "properties_name d \<notin> set objectPrototype"
    by (simp_all add: map_of_eq_None_iff)
  then have n: "lookup cd (properties_name d) = None"
    by (simp add: lookup_def)
  show "fill True cd d = ''#374151''" using n by (simp add: fill_def)
  show "fill False cd d = ''#e5e7eb''" using n by (simp add: fill_def)
next
  assume "distinct (map fst cd)" "(properties_name d, r) \<in> set cd"
  then have "map_of cd (properties_name d) = Some r"
    by (rule map_of_is_SomeI)
  then have s: "lookup cd (properties_name d) = Some (Own r)"
    by (simp add: lookup_def)
  { assume "riskLevel r = ''high''"
    with s show "fill dm cd d = ''#ef4444''" by (simp add: fill_def riskLevelOf_def) }
  { assume "riskLevel r = ''medium''"
    with s show "fill dm cd d = ''#f59e0b''" by (simp add: fill_def riskLevelOf_def) }
  { assume "riskLevel r = ''low''"
    with s show "fill dm cd d = ''#10b981''" by (simp add: fill_def riskLevelOf_def) }
qed


subsection \<open>Pulse markers\<close>

text \<open>
  C8. The claim: after a render pass the pulse markers are exactly the countries of the
  dataset whose risk level is high. The code looks every such country up among the
  features and drops it when no feature has its name. With the dataset X high, Y medium,
  Z high and a geometry that draws only Y and Z, the only pulse is Z.
\<close>

theorem pulse_set_counterexample:
  "map fst (circles (worldLoaded origin [featureNamed ''Y'', featureNamed ''Z'']
                       (st0\<lparr>countryData := xyz noData\<rparr>) (buildMap 1000 750 True ''natural'')))
     = [''Z''] \<and>
   fst ` set (circles (worldLoaded origin [featureNamed ''Y'', featureNamed ''Z'']
                       (st0\<lparr>countryData := xyz noData\<rparr>) (buildMap 1000 750 True ''natural'')))
     \<noteq> {''X'', ''Z''}"
  by (simp add: worldLoaded_def pulseData_def xyz_def featureNamed_def st0_def)

text \<open>
  C8, amended. After a render pass the pulse markers are exactly the countries of the
  dataset whose risk level is high and whose name is the display name of a feature of
  the geometry. For the dataset X high, Y medium, Z high and a geometry that has features
  named X and Z, the pulses are X and Z, in this order, and Y has none.
\<close>

theorem pulse_set:
  "fst ` set (circles (worldLoaded pc fs st m)) =
     {c. \<exists>r. (c, r) \<in> set (countryData st) \<and> riskLevel r = ''high''}
       \<inter> properties_name ` set fs \<and>
   (countryData st = xyz r \<longrightarrow> ''X'' \<in> properties_name ` set fs \<longrightarrow>
    ''Z'' \<in> properties_name ` set fs \<longrightarrow>
      map fst (circles (worldLoaded pc fs st m)) = [''X'', ''Z''])"
  by (simp add: worldLoaded_def pulse_names pulse_xyz)

theorem pulse_set_witness:
  "map fst (circles (worldLoaded origin
                       [featureNamed ''X'', featureNamed ''Y'', featureNamed ''Z'']
                       (st0\<lparr>countryData := xyz noData\<rparr>) (buildMap 1000 750 True ''natural'')))
     = [''X'', ''Z'']"
proof -
  have a: "countryData (st0\<lparr>countryData := xyz noData\<rparr>) = xyz noData"
    by simp
  have b: "''X'' \<in> properties_name ` set [featureNamed ''X'', featureNamed ''Y'', featureNamed ''Z'']"
    and c: "''Z'' \<in> properties_name ` set [featureNamed ''X'', featureNamed ''Y'', featureNamed ''Z'']"
    by (simp_all add: featureNamed_def)
  from pulse_set [of origin "[featureNamed ''X'', featureNamed ''Y'', featureNamed ''Z'']"
                     "st0\<lparr>countryData := xyz noData\<rparr>" "buildMap 1000 750 True ''natural''"
                     noData] a b c
  show ?thesis by blast
qed

subsection \<open>Double click\<close>

text \<open>
  C9. The claim: a double click ends at scale 1, translate (0, 0) and rotation (0, 0, 0),
  for every prior view and every projection. The listener resets the zoom transform
  only. On the globe (its svg at the origin of the page), a drag from (0, 0) to (20, 10)
  turns the rotation to (10, -5, 0), and it is still (10, -5, 0) after the double click.
\<close>

theorem dblclick_counterexample:
  "protate (projection
     (handles [PointerDown (0, 0) (0, 0), PointerMove (20, 10) (20, 10), DblClick]
        (buildMap 1000 750 True ''orthographic''))) = (Num 10, Num (- 5), Num 0) \<and>
   protate (projection
     (handles [PointerDown (0, 0) (0, 0), PointerMove (20, 10) (20, 10), DblClick]
        (buildMap 1000 750 True ''orthographic''))) \<noteq> (Num 0, Num 0, Num 0)"
  by (simp add: handles_def buildMap_def dragstarted_def dragged_def r1_def inSvg_def inPage_def
                projection_rotate_def js_rem_small run_def zoomed_def dblclick_zoom_def)

text \<open>
  C9, amended. The listener of the double click (which the zoom behaviour also calls on
  a double tap) starts a transition of 750 ms whose end state is scale 1 and translate
  (0, 0), for every prior state of the map and every projection, the orthographic one
  included; the projection, and with it the rotation, is left as it was.
\<close>

theorem dblclick_resets_zoom:
  "duration (dblclick_zoom m) = 750 \<and>
   zoomT (handle DblClick m) = \<lparr>tk = 1, tx = 0, ty = 0\<rparr> \<and>
   g_transform (handle DblClick m) = Some \<lparr>tk = 1, tx = 0, ty = 0\<rparr> \<and>
   projection (handle DblClick m) = projection m"
  by (simp add: dblclick_zoom_def run_def zoomed_def zoomIdentity_def)

text \<open>The example of the specification: from scale 3.2, translate (40, -10), on the globe.\<close>

theorem dblclick_resets_zoom_witness:
  "zoomT (handle DblClick
            ((buildMap 1000 750 True ''orthographic'')\<lparr>zoomT := \<lparr>tk = 3.2, tx = 40, ty = - 10\<rparr>\<rparr>))
     = \<lparr>tk = 1, tx = 0, ty = 0\<rparr>"
  using dblclick_resets_zoom
          [of "(buildMap 1000 750 True ''orthographic'')\<lparr>zoomT := \<lparr>tk = 3.2, tx = 40, ty = - 10\<rparr>\<rparr>"]
  by blast

subsection \<open>Rotating the globe\<close>

text \<open>
  C10. The claim: each drag-move sets the rotation to the rotation captured at the drag
  start plus 0.5 times the distance of the pointer from its start position. The handlers
  read the start position inside the svg and the position of a drag-move in the page, so
  the distance they take includes the place of the svg in the page. With the svg at
  (100, 50) in the page, a mouse drag on the fresh globe from (0, 0) to (80, 40) inside
  the svg should give the rotation (40, -20, 0); the code gives (90, -45, 0).
\<close>

theorem drag_mixes_frames:
  "protate (projection
     (handles [PointerDown (0, 0) (100, 50), PointerMove (80, 40) (180, 90)]
        (buildMap 1000 750 True ''orthographic''))) = (Num 90, Num (- 45), Num 0) \<and>
   protate (projection
     (handles [PointerDown (0, 0) (100, 50), PointerMove (80, 40) (180, 90)]
        (buildMap 1000 750 True ''orthographic''))) \<noteq> (Num 40, Num (- 20), Num 0)"
  by (simp add: handles_def buildMap_def dragstarted_def dragged_def r1_def inSvg_def inPage_def
                projection_rotate_def js_rem_small)

text \<open>
  The same handlers under a touch drag: the pointer they read is \<open>NaN\<close>, and so are
  the first two angles from the first move on.
\<close>

lemma touch_drag_rotation:
  "protate (projection
     (handles [TouchStart, TouchMove (10, 10) (10, 10)]
        (buildMap 1000 750 True ''orthographic''))) = (NaN, NaN, Num 0)"
  by (simp add: handles_def buildMap_def dragstarted_def dragged_def r1_def ofTouch_def
                projection_rotate_def)

text \<open>Under every other projection no event touches the rotation.\<close>

lemma flat_rotation:
  "\<not> dragHandlers m \<Longrightarrow> protate (projection (handle e m)) = protate (projection m)"
  by (induction e arbitrary: m)
     (auto simp: run_def cut_def zoomed_def Let_def split: option.splits)

lemma flat_rotation_handles:
  "proj \<noteq> ''orthographic'' \<Longrightarrow>
     protate (projection (handles es (buildMap w h dm proj))) = (Num 0, Num 0, Num 0)"
proof (induction es rule: rev_induct)
  case Nil
  then show ?case by (simp add: handles_def buildMap_def)
next
  case (snoc e es)
  then have "\<not> dragHandlers (handles es (buildMap w h dm proj))"
    by (simp add: dragHandlers_handles buildMap_def)
  with snoc show ?case by (simp add: handles_snoc flat_rotation)
qed

end
